theory Spec2Isabelle
  imports Main "HOL-Library.AList" "HOL-Library.Multiset"
begin

section \<open>Data model of the chat server (Whatsapplite.py)\<close>

text \<open>
  An inbound socket event carries a dictionary. A key of that dictionary is either missing,
  present with the value null, or present with a value. \<open>d.get(k)\<close> maps the first two to
  Python's \<open>None\<close>; \<open>d.get(k, dflt)\<close> substitutes \<open>dflt\<close> only for a missing key.
  The text-like keys (token, room, name, msg, id, emoji) carry strings, the key \<open>pin\<close> a boolean.
\<close>

datatype 'a field = Absent | Null | Val 'a

definition get :: "'a field \<Rightarrow> 'a option" where
  "get f = (case f of Absent \<Rightarrow> None | Null \<Rightarrow> None | Val v \<Rightarrow> Some v)"

definition get_default :: "'a field \<Rightarrow> 'a \<Rightarrow> 'a option" where
  "get_default f dflt = (case f of Absent \<Rightarrow> Some dflt | Null \<Rightarrow> None | Val v \<Rightarrow> Some v)"

text \<open>Python truthiness of an optional string: \<open>None\<close> and the empty string are false.\<close>

definition truthy :: "string option \<Rightarrow> bool" where
  "truthy v = (case v of None \<Rightarrow> False | Some s \<Rightarrow> s \<noteq> [])"

text \<open>
  A row of the table \<open>messages\<close>. The timestamp is a reading of the clock
  (\<open>datetime.utcnow()\<close>), taken as a natural number. The JSON column \<open>reactions\<close> is a Python
  dictionary from emoji to a list of names: an association list in insertion order, read with
  \<open>map_of\<close> and written with \<open>AList.update\<close> (an existing key keeps its place, a new key goes
  to the end). The JSON column \<open>read_by\<close> is a list of names.
\<close>

record message =
  msg_id :: string
  room :: "string option"
  author :: "string option"
  mtext :: "string option"
  mtype :: string
  mfile :: "string option"
  ts :: nat
  edited :: bool
  deleted :: bool
  reactions :: "(string \<times> string list) list"
  pinned :: bool
  read_by :: "string list"

text \<open>
  The dictionary built by \<open>message_to_dict\<close>, one field per key. The key \<open>ts\<close> is shown as
  the clock reading itself; its rendering by \<open>strftime\<close> is left out. \<open>m.reactions or {}\<close> and
  \<open>m.read_by or []\<close> are the columns themselves, an empty one being the empty list.
\<close>

record msg_dict =
  d_id :: string
  d_room :: "string option"
  d_name :: "string option"
  d_msg :: "string option"
  d_type :: string
  d_file :: "string option"
  d_ts :: nat
  d_edited :: bool
  d_deleted :: bool
  d_reactions :: "(string \<times> string list) list"
  d_pinned :: bool
  d_read_by :: "string list"

definition message_to_dict :: "message \<Rightarrow> msg_dict" where
  "message_to_dict m =
     \<lparr> d_id = msg_id m, d_room = room m, d_name = author m, d_msg = mtext m,
       d_type = mtype m, d_file = mfile m, d_ts = ts m, d_edited = edited m,
       d_deleted = deleted m, d_reactions = reactions m, d_pinned = pinned m,
       d_read_by = read_by m \<rparr>"

text \<open>
  What a handler does to the outside: an emitted event with its payload and its addressee, or
  a call of \<open>join_room\<close> for the current connection. \<open>socketio.emit(ev, p)\<close> goes to
  \<open>Everyone\<close>, \<open>socketio.emit(ev, p, to=r)\<close> to \<open>ToRoom r\<close> (with \<open>r\<close> as read from the
  event, possibly \<open>None\<close>), the context-bound \<open>emit(ev, p)\<close> to \<open>ToSelf\<close>, and
  \<open>emit(ev, p, to=r, include_self=False)\<close> to \<open>ToRoomExceptSelf r\<close>.
  \<open>OpenTransaction ws\<close> records that the handler returns without a commit while its session
  holds a transaction in which the rows with these identifiers were given these \<open>read_by\<close>
  lists: none of it reaches the table, and the transaction lasts until the session is freed.
\<close>

datatype target = Everyone | ToRoom "string option" | ToRoomExceptSelf "string option" | ToSelf

datatype payload =
    PMsg msg_dict
  | PMsgs "msg_dict list"
  | PPresence string bool
  | PNames "string list"
  | PSent string
  | PTyping "string option" "string option"
  | PDelivered "string option"
  | PRead "string option" "string option"

datatype effect =
    Emit string payload target
  | JoinRoom "string option"
  | OpenTransaction "(string \<times> string list) list"

text \<open>
  The server: the tables \<open>devices\<close> (token to username, through the device's user) and
  \<open>messages\<close> (in row order), and the two in-memory dictionaries \<open>online_users\<close>
  (username to the set of connection ids, in insertion order since its keys are listed)
  and \<open>sid_to_user\<close>.
\<close>

record server =
  devices :: "(string \<times> string) list"
  messages :: "message list"
  online_users :: "(string \<times> string set) list"
  sid_to_user :: "(string \<times> string) list"

definition empty_server :: "(string \<times> string) list \<Rightarrow> server" where
  "empty_server ds = \<lparr> devices = ds, messages = [], online_users = [], sid_to_user = [] \<rparr>"

datatype error = IntegrityError

section \<open>Helpers\<close>

text \<open>
  \<open>mk_msg_db\<close>: the new row, appended to the table. The identifier \<open>new_id\<close> is the value
  drawn from \<open>secrets.token_hex(10)\<close> and \<open>now\<close> the clock; the column \<open>msg_id\<close> is unique,
  so a repeated identifier makes the commit raise.
\<close>

definition mk_msg_db ::
  "message list \<Rightarrow> string \<Rightarrow> nat \<Rightarrow> string option \<Rightarrow> string option \<Rightarrow> string \<Rightarrow>
   string option \<Rightarrow> string option \<Rightarrow> error + (message list \<times> message)" where
  "mk_msg_db ms new_id now author_v text_v mtype_v file_url room_v =
     (let msg = \<lparr> msg_id = new_id, room = room_v, author = author_v, mtext = text_v,
                  mtype = mtype_v, mfile = file_url, ts = now, edited = False,
                  deleted = False, reactions = [], pinned = False, read_by = [] \<rparr>
      in if new_id \<in> msg_id ` set ms then Inl IntegrityError else Inr (ms @ [msg], msg))"

text \<open>\<open>sess.query(Message).filter_by(msg_id=i).first()\<close>; no row has a null identifier.\<close>

definition first_by_id :: "string option \<Rightarrow> message list \<Rightarrow> message option" where
  "first_by_id i ms = (case i of None \<Rightarrow> None | Some k \<Rightarrow> find (\<lambda>m. msg_id m = k) ms)"

text \<open>
  Writing the changed row back on commit: the first row with that identifier. An assignment
  to a column of the mapped object followed by \<open>sess.commit()\<close> stores the assigned value;
  without the commit the table keeps the old row.
\<close>

fun update_msg :: "string \<Rightarrow> message \<Rightarrow> message list \<Rightarrow> message list" where
  "update_msg k m' [] = []"
| "update_msg k m' (m # ms) = (if msg_id m = k then m' # ms else m # update_msg k m' ms)"

text \<open>\<open>sess.query(Message).filter_by(room=r).all()\<close>, in row order.\<close>

definition rows_of_room :: "string option \<Rightarrow> message list \<Rightarrow> message list" where
  "rows_of_room r ms = filter (\<lambda>m. room m = r) ms"

section \<open>Socket handlers\<close>

definition on_connect :: "server \<Rightarrow> string \<Rightarrow> server \<times> effect list" where
  "on_connect s sid = (s, [])"

definition on_auth :: "server \<Rightarrow> string \<Rightarrow> string field \<Rightarrow> server \<times> effect list" where
  "on_auth s sid token_f =
     (case get token_f of
        None \<Rightarrow> (s, [])
      | Some token \<Rightarrow>
          if token = [] then (s, [])
          else (case map_of (devices s) token of
                  None \<Rightarrow> (s, [])
                | Some user \<Rightarrow>
                    (let conns = (case map_of (online_users s) user of
                                    None \<Rightarrow> {} | Some c \<Rightarrow> c);
                         s' = s\<lparr> sid_to_user := AList.update sid user (sid_to_user s),
                                 online_users :=
                                   AList.update user (insert sid conns) (online_users s) \<rparr>
                     in (s', [JoinRoom (Some (''user:'' @ user)),
                              Emit ''presence'' (PPresence user True) Everyone,
                              Emit ''online_update''
                                (PNames (map fst (online_users s'))) Everyone]))))"

text \<open>
  \<open>order_by(Message.ts.asc()).limit(500)\<close>: the rows of the room sorted by timestamp, rows
  of equal timestamp in row order, and the first 500 of them.
\<close>

definition on_join :: "server \<Rightarrow> string \<Rightarrow> string field \<Rightarrow> server \<times> effect list" where
  "on_join s sid room_f =
     (let r = get_default room_f ''main'';
          rows = take 500 (sort_key ts (rows_of_room r (messages s)))
      in (s, [JoinRoom r, Emit ''history'' (PMsgs (map message_to_dict rows)) ToSelf]))"

definition on_msg ::
  "server \<Rightarrow> string \<Rightarrow> string \<Rightarrow> nat \<Rightarrow> string field \<Rightarrow> string field \<Rightarrow> string field \<Rightarrow>
   error + (server \<times> effect list)" where
  "on_msg s sid new_id now room_f name_f msg_f =
     (let r = get_default room_f ''main'';
          name = get_default name_f ''Anon'';
          txt = get_default msg_f ''''
      in case mk_msg_db (messages s) new_id now name txt ''text'' None r of
           Inl e \<Rightarrow> Inl e
         | Inr (ms', msg) \<Rightarrow>
             Inr (s\<lparr> messages := ms' \<rparr>,
                  [Emit ''msg'' (PMsg (message_to_dict msg)) (ToRoom r),
                   Emit ''sent'' (PSent (msg_id msg)) ToSelf]))"

definition on_typing ::
  "server \<Rightarrow> string \<Rightarrow> string field \<Rightarrow> string field \<Rightarrow> server \<times> effect list" where
  "on_typing s sid room_f name_f =
     (let r = get_default room_f ''main''; name = get_default name_f ''Anon''
      in (s, [Emit ''typing'' (PTyping r name) (ToRoomExceptSelf r)]))"

definition on_delivered ::
  "server \<Rightarrow> string \<Rightarrow> string field \<Rightarrow> string field \<Rightarrow> server \<times> effect list" where
  "on_delivered s sid id_f room_f =
     (s, [Emit ''delivered'' (PDelivered (get id_f)) (ToRoom (get room_f))])"

text \<open>
  \<open>reactions\<close> and \<open>read_by\<close> are plain JSON columns: a write is found by comparing the
  assigned value with the loaded one. \<open>m.read_by or []\<close> and \<open>m.reactions or {}\<close> give a new
  object when the loaded value is empty and the loaded object itself otherwise; the handlers
  change that object in place and assign it back. A loaded non-empty value is thus compared
  with itself and nothing is written; only a value built from an empty column is written.
  \<open>json_written loaded assigned\<close> is the value of the column after the flush.
\<close>

definition json_written :: "'a list \<Rightarrow> 'a list \<Rightarrow> 'a list" where
  "json_written loaded assigned = (if loaded = [] then assigned else loaded)"

definition on_read ::
  "server \<Rightarrow> string \<Rightarrow> string field \<Rightarrow> string field \<Rightarrow> string field \<Rightarrow>
   server \<times> effect list" where
  "on_read s sid id_f room_f name_f =
     (let i = get id_f; r = get room_f; name = get name_f
      in if \<not> truthy i \<or> \<not> truthy r \<or> \<not> truthy name then (s, [])
         else
           (let s' = (case first_by_id i (messages s) of
                        None \<Rightarrow> s
                      | Some m \<Rightarrow>
                          (case name of
                             None \<Rightarrow> s
                           | Some n \<Rightarrow>
                               if n \<noteq> [] \<and> n \<notin> set (read_by m)
                               then s\<lparr> messages :=
                                        update_msg (msg_id m)
                                          (m\<lparr> read_by :=
                                               json_written (read_by m) (read_by m @ [n]) \<rparr>)
                                          (messages s) \<rparr>
                               else s))
            in (s', [Emit ''read'' (PRead i name) (ToRoom r)])))"

text \<open>
  The loop of \<open>on_read_all\<close> over the rows of the room: the mapped objects as the loop leaves
  them in memory, and the flag \<open>changed\<close>.
\<close>

fun mark_rows :: "string option \<Rightarrow> message list \<Rightarrow> bool \<Rightarrow> message list \<times> bool" where
  "mark_rows name [] changed = ([], changed)"
| "mark_rows name (m # ms) changed =
     (case name of
        None \<Rightarrow> (let (ms', c) = mark_rows name ms changed in (m # ms', c))
      | Some n \<Rightarrow>
          if n \<noteq> [] \<and> n \<notin> set (read_by m)
          then (let (ms', c) = mark_rows name ms True
                in (m\<lparr> read_by := read_by m @ [n] \<rparr> # ms', c))
          else (let (ms', c) = mark_rows name ms changed in (m # ms', c)))"

text \<open>
  The second query of \<open>on_read_all\<close>. It flushes first: the rows whose list was empty are
  updated inside the open transaction, the rows changed in place are not. After the flush the
  session holds its objects weakly; the loop variable still refers to the last row, the other
  objects are freed and their rows are read again from the table. \<open>rows\<close> are the rows as
  loaded, \<open>objs\<close> the objects as the loop left them.
\<close>

definition second_query :: "message list \<Rightarrow> message list \<Rightarrow> message list" where
  "second_query rows objs =
     (if rows = [] then []
      else map (\<lambda>(old, new). old\<lparr> read_by := json_written (read_by old) (read_by new) \<rparr>)
             (zip (butlast rows) (butlast objs))
           @ [last objs])"

text \<open>What that flush writes: the identifier and the new list of each row it updates.\<close>

definition flushed :: "message list \<Rightarrow> message list \<Rightarrow> (string \<times> string list) list" where
  "flushed rows objs =
     map (\<lambda>(old, new). (msg_id old, read_by new))
       (filter (\<lambda>(old, new). json_written (read_by old) (read_by new) \<noteq> read_by old)
          (zip rows objs))"

text \<open>
  \<open>on_read_all\<close> never calls \<open>sess.commit()\<close> (\<open>on_read\<close> does): what it flushed stays in the
  open transaction of its session and is rolled back when the session is freed, so the table
  is as before. The write lock that the transaction holds until then is not part of the state.
\<close>

definition on_read_all ::
  "server \<Rightarrow> string \<Rightarrow> string field \<Rightarrow> string field \<Rightarrow> server \<times> effect list" where
  "on_read_all s sid room_f name_f =
     (let r = get room_f; name = get name_f;
          rows = rows_of_room r (messages s);
          (objs, changed) = mark_rows name rows False
      in (s, if changed
             then (if flushed rows objs = [] then []
                   else [OpenTransaction (flushed rows objs)])
                  @ [Emit ''read_update''
                       (PMsgs (map message_to_dict (second_query rows objs))) (ToRoom r)]
             else []))"

definition on_delete ::
  "server \<Rightarrow> string \<Rightarrow> string field \<Rightarrow> string field \<Rightarrow> server \<times> effect list" where
  "on_delete s sid room_f id_f =
     (let r = get room_f; i = get id_f
      in case first_by_id i (messages s) of
           None \<Rightarrow> (s, [])
         | Some m \<Rightarrow>
             (let m' = m\<lparr> deleted := True, mtext := Some ''(message deleted)'' \<rparr>
              in (s\<lparr> messages := update_msg (msg_id m) m' (messages s) \<rparr>,
                  [Emit ''msg_update'' (PMsg (message_to_dict m')) (ToRoom r)])))"

definition on_edit ::
  "server \<Rightarrow> string \<Rightarrow> nat \<Rightarrow> string field \<Rightarrow> string field \<Rightarrow> string field \<Rightarrow>
   server \<times> effect list" where
  "on_edit s sid now room_f id_f msg_f =
     (let r = get room_f; i = get id_f; new_text = get msg_f
      in case first_by_id i (messages s) of
           None \<Rightarrow> (s, [])
         | Some m \<Rightarrow>
             (let m' = m\<lparr> mtext := new_text, edited := True, ts := now \<rparr>
              in (s\<lparr> messages := update_msg (msg_id m) m' (messages s) \<rparr>,
                  [Emit ''msg_update'' (PMsg (message_to_dict m')) (ToRoom r)])))"

text \<open>
  The toggle of \<open>on_react\<close> on the list of one emoji: \<open>arr.remove(name)\<close> takes out the first
  occurrence, \<open>arr.append(name)\<close> adds at the end.
\<close>

definition toggle :: "string \<Rightarrow> string list \<Rightarrow> string list" where
  "toggle name arr = (if name \<in> set arr then remove1 name arr else arr @ [name])"

definition rx_get :: "(string \<times> string list) list \<Rightarrow> string \<Rightarrow> string list" where
  "rx_get rx emoji = (case map_of rx emoji of None \<Rightarrow> [] | Some arr \<Rightarrow> arr)"

text \<open>
  \<open>on_react\<close> commits, which expires the object, and \<open>message_to_dict\<close> reads the row again:
  the payload is the row as stored.
\<close>

definition on_react ::
  "server \<Rightarrow> string \<Rightarrow> string field \<Rightarrow> string field \<Rightarrow> string field \<Rightarrow> string field \<Rightarrow>
   server \<times> effect list" where
  "on_react s sid room_f id_f emoji_f name_f =
     (let r = get room_f; i = get id_f
      in case (get emoji_f, get name_f) of
           (Some emoji, Some name) \<Rightarrow>
             if emoji = [] \<or> name = [] then (s, [])
             else (case first_by_id i (messages s) of
                     None \<Rightarrow> (s, [])
                   | Some m \<Rightarrow>
                       (let rx = reactions m;
                            arr = toggle name (rx_get rx emoji);
                            m' = m\<lparr> reactions :=
                                     json_written rx (AList.update emoji arr rx) \<rparr>
                        in (s\<lparr> messages := update_msg (msg_id m) m' (messages s) \<rparr>,
                            [Emit ''msg_update'' (PMsg (message_to_dict m')) (ToRoom r)])))
         | _ \<Rightarrow> (s, []))"

definition on_pin ::
  "server \<Rightarrow> string \<Rightarrow> string field \<Rightarrow> string field \<Rightarrow> bool field \<Rightarrow> server \<times> effect list" where
  "on_pin s sid room_f id_f pin_f =
     (let r = get room_f; i = get id_f;
          pin = (case get pin_f of None \<Rightarrow> False | Some b \<Rightarrow> b)
      in case first_by_id i (messages s) of
           None \<Rightarrow> (s, [])
         | Some m \<Rightarrow>
             (let m' = m\<lparr> pinned := pin \<rparr>
              in (s\<lparr> messages := update_msg (msg_id m) m' (messages s) \<rparr>,
                  [Emit ''msg_update'' (PMsg (message_to_dict m')) (ToRoom r)])))"

definition online_update :: "server \<Rightarrow> effect" where
  "online_update s = Emit ''online_update'' (PNames (map fst (online_users s))) Everyone"

definition on_disconnect :: "server \<Rightarrow> string \<Rightarrow> server \<times> effect list" where
  "on_disconnect s sid =
     (let s1 = s\<lparr> sid_to_user := AList.delete sid (sid_to_user s) \<rparr>
      in case map_of (sid_to_user s) sid of
           None \<Rightarrow> (s1, [])
         | Some user \<Rightarrow>
             if user = [] then (s1, [])
             else (case map_of (online_users s) user of
                     None \<Rightarrow> (s1, [online_update s1])
                   | Some c \<Rightarrow>
                       if c = {} then (s1, [online_update s1])
                       else if c - {sid} = {}
                       then (let s2 = s1\<lparr> online_users :=
                                             AList.delete user (online_users s) \<rparr>
                             in (s2, [Emit ''presence'' (PPresence user False) Everyone,
                                      online_update s2]))
                       else (let s2 = s1\<lparr> online_users :=
                                             AList.update user (c - {sid}) (online_users s) \<rparr>
                             in (s2, [online_update s2]))))"

section \<open>Event dispatch\<close>

text \<open>
  The inbound socket events with their fields. \<open>Msg\<close> and \<open>EditMsg\<close> also carry what their
  handlers draw from the environment: the random identifier and the clock.
\<close>

datatype event =
    Connect
  | Auth "string field"
  | Join "string field"
  | Msg string nat "string field" "string field" "string field"
  | Typing "string field" "string field"
  | Delivered "string field" "string field"
  | Read "string field" "string field" "string field"
  | ReadAll "string field" "string field"
  | DeleteMsg "string field" "string field"
  | EditMsg nat "string field" "string field" "string field"
  | React "string field" "string field" "string field" "string field"
  | PinMsg "string field" "string field" "bool field"
  | Disconnect

text \<open>A handler that raises leaves the server as it was and emits nothing.\<close>

fun handle :: "server \<Rightarrow> string \<Rightarrow> event \<Rightarrow> server \<times> effect list" where
  "handle s sid Connect = on_connect s sid"
| "handle s sid (Auth token_f) = on_auth s sid token_f"
| "handle s sid (Join room_f) = on_join s sid room_f"
| "handle s sid (Msg new_id now room_f name_f msg_f) =
     (case on_msg s sid new_id now room_f name_f msg_f of Inl e \<Rightarrow> (s, []) | Inr r \<Rightarrow> r)"
| "handle s sid (Typing room_f name_f) = on_typing s sid room_f name_f"
| "handle s sid (Delivered id_f room_f) = on_delivered s sid id_f room_f"
| "handle s sid (Read id_f room_f name_f) = on_read s sid id_f room_f name_f"
| "handle s sid (ReadAll room_f name_f) = on_read_all s sid room_f name_f"
| "handle s sid (DeleteMsg room_f id_f) = on_delete s sid room_f id_f"
| "handle s sid (EditMsg now room_f id_f msg_f) = on_edit s sid now room_f id_f msg_f"
| "handle s sid (React room_f id_f emoji_f name_f) = on_react s sid room_f id_f emoji_f name_f"
| "handle s sid (PinMsg room_f id_f pin_f) = on_pin s sid room_f id_f pin_f"
| "handle s sid Disconnect = on_disconnect s sid"

text \<open>The server after a sequence of events, each with the connection it arrives on.\<close>

fun run :: "server \<Rightarrow> (string \<times> event) list \<Rightarrow> server" where
  "run s [] = s"
| "run s ((sid, ev) # evs) = run (fst (handle s sid ev)) evs"

section \<open>Notions used by the properties\<close>

text \<open>The message dictionaries an effect carries.\<close>

fun payload_dicts :: "payload \<Rightarrow> msg_dict list" where
  "payload_dicts (PMsg d) = [d]"
| "payload_dicts (PMsgs ds) = ds"
| "payload_dicts (PPresence u b) = []"
| "payload_dicts (PNames ns) = []"
| "payload_dicts (PSent i) = []"
| "payload_dicts (PTyping r n) = []"
| "payload_dicts (PDelivered i) = []"
| "payload_dicts (PRead i n) = []"

fun effect_dicts :: "effect \<Rightarrow> msg_dict list" where
  "effect_dicts (Emit ev p t) = payload_dicts p"
| "effect_dicts (JoinRoom r) = []"
| "effect_dicts (OpenTransaction ws) = []"

definition emitted_dicts :: "effect list \<Rightarrow> msg_dict list" where
  "emitted_dicts es = concat (map effect_dicts es)"

text \<open>The active connections of a user: the entry of \<open>online_users\<close>, empty without one.\<close>

definition conns_of :: "server \<Rightarrow> string \<Rightarrow> string set" where
  "conns_of s u = (case map_of (online_users s) u of None \<Rightarrow> {} | Some c \<Rightarrow> c)"

text \<open>Every user listed in \<open>online_users\<close> has a connection.\<close>

definition presence_ok :: "server \<Rightarrow> bool" where
  "presence_ok s \<longleftrightarrow> (\<forall>p \<in> set (online_users s). snd p \<noteq> {})"


section \<open>Example states\<close>

definition ex_msg :: "string \<Rightarrow> nat \<Rightarrow> string \<Rightarrow> message" where
  "ex_msg i t body =
     \<lparr> msg_id = i, room = Some ''main'', author = Some ''alice'', mtext = Some body,
       mtype = ''text'', mfile = None, ts = t, edited = False, deleted = False,
       reactions = [], pinned = False, read_by = [] \<rparr>"

definition ex_devices :: "(string \<times> string) list" where
  "ex_devices = [(''t1'', ''alice''), (''t2'', ''bob'')]"

definition ex_store :: server where
  "ex_store =
     \<lparr> devices = ex_devices,
       messages = [(ex_msg ''a'' 1 ''hi'')\<lparr> reactions := [(''+'', [''bob''])],
                                            read_by := [''bob''] \<rparr>,
                   ex_msg ''b'' 2 ''yo''],
       online_users = [(''alice'', {''s1''})],
       sid_to_user = [(''s1'', ''alice'')] \<rparr>"


section \<open>Facts about the helpers\<close>





section \<open>Soft delete\<close>



section \<open>Presence on authentication\<close>

text \<open>
  C2, as stated, fails: alice is online through connection \<open>s1\<close>, and the authentication of
  a second connection with her token emits \<open>presence\<close> again.
\<close>

theorem on_auth_second_connection_counterexample:
  "conns_of ex_store ''alice'' = {''s1''} \<and>
   snd (on_auth ex_store ''s2'' (Val ''t1'')) =
     [JoinRoom (Some ''user:alice''),
      Emit ''presence'' (PPresence ''alice'' True) Everyone,
      Emit ''online_update'' (PNames [''alice'']) Everyone]"
  by (simp add: conns_of_def ex_store_def ex_devices_def on_auth_def get_def Let_def)

text \<open>
  C2, amended. Every successful authentication (a non-empty token that a device row holds)
  emits \<open>presence {user, online: true}\<close> and then \<open>online_update\<close> with the names
  listed after the registration, whether or not the user had an active connection before; the
  connection is added to the user's set and bound to the user.
\<close>

theorem on_auth_presence:
  assumes "get token_f = Some token" and "token \<noteq> []"
    and "map_of (devices s) token = Some user"
  shows "snd (on_auth s sid token_f) =
           [JoinRoom (Some (''user:'' @ user)),
            Emit ''presence'' (PPresence user True) Everyone,
            Emit ''online_update''
              (PNames (map fst (online_users (fst (on_auth s sid token_f))))) Everyone]
         \<and> conns_of (fst (on_auth s sid token_f)) user = insert sid (conns_of s user)
         \<and> map_of (sid_to_user (fst (on_auth s sid token_f))) sid = Some user"
  using assms by (simp add: on_auth_def Let_def conns_of_def update_conv')

theorem on_auth_presence_witness:
  "get (Val ''t1'') = Some ''t1'' \<and> ''t1'' \<noteq> [] \<and> map_of (devices ex_store) ''t1'' = Some ''alice''
   \<and> conns_of ex_store ''alice'' \<noteq> {}
   \<and> Emit ''presence'' (PPresence ''alice'' True) Everyone
        \<in> set (snd (on_auth ex_store ''s2'' (Val ''t1'')))
   \<and> conns_of (fst (on_auth ex_store ''s2'' (Val ''t1''))) ''alice'' = {''s1'', ''s2''}"
proof -
  have h: "get (Val ''t1'') = Some ''t1''" "''t1'' \<noteq> []"
          "map_of (devices ex_store) ''t1'' = Some ''alice''"
    by (simp_all add: get_def ex_store_def ex_devices_def)
  have c: "conns_of ex_store ''alice'' = {''s1''}"
    by (simp add: conns_of_def ex_store_def)
  from on_auth_presence [OF h, of "''s2''"] c h show ?thesis by auto
qed

section \<open>Handlers on an unknown message identifier\<close>

text \<open>
  C4, as stated, fails for \<open>read\<close>: no row has the identifier \<open>zz\<close>, the table is left as
  it is, and yet a \<open>read\<close> event goes to the room.
\<close>

theorem on_read_unknown_id_counterexample:
  "first_by_id (get (Val ''zz'')) (messages ex_store) = None \<and>
   fst (on_read ex_store ''s1'' (Val ''zz'') (Val ''main'') (Val ''bob'')) = ex_store \<and>
   snd (on_read ex_store ''s1'' (Val ''zz'') (Val ''main'') (Val ''bob'')) =
     [Emit ''read'' (PRead (Some ''zz'') (Some ''bob'')) (ToRoom (Some ''main''))]"
proof -
  have h: "first_by_id (get (Val ''zz'')) (messages ex_store) = None"
    by (simp add: get_def first_by_id_def ex_store_def ex_msg_def)
  then show ?thesis
    by (simp add: on_read_def Let_def get_def truthy_def)
qed

text \<open>
  C4, amended. With an identifier that no row has, \<open>delete\<close>, \<open>edit\<close>, \<open>react\<close> and
  \<open>pin\<close> change nothing and emit nothing. \<open>read\<close> changes nothing either; it relays
  \<open>read {id, name}\<close> to the room when identifier, room and name are all non-empty, and emits
  nothing otherwise.
\<close>

theorem absent_id_handlers:
  assumes "first_by_id (get id_f) (messages s) = None"
  shows "on_delete s sid room_f id_f = (s, [])
       \<and> on_edit s sid now room_f id_f msg_f = (s, [])
       \<and> on_react s sid room_f id_f emoji_f name_f = (s, [])
       \<and> on_pin s sid room_f id_f pin_f = (s, [])
       \<and> on_read s sid id_f room_f name_f =
           (s, if truthy (get id_f) \<and> truthy (get room_f) \<and> truthy (get name_f)
               then [Emit ''read'' (PRead (get id_f) (get name_f)) (ToRoom (get room_f))]
               else [])"
  using assms
  by (simp add: on_delete_def on_edit_def on_react_def on_pin_def on_read_def Let_def
           split: option.splits)

theorem absent_id_handlers_witness:
  "first_by_id (get (Val ''zz'')) (messages ex_store) = None
   \<and> on_delete ex_store ''s1'' (Val ''main'') (Val ''zz'') = (ex_store, [])
   \<and> on_edit ex_store ''s1'' 9 (Val ''main'') (Val ''zz'') (Val ''new'') = (ex_store, [])
   \<and> on_react ex_store ''s1'' (Val ''main'') (Val ''zz'') (Val ''+'') (Val ''bob'') = (ex_store, [])
   \<and> on_pin ex_store ''s1'' (Val ''main'') (Val ''zz'') (Val True) = (ex_store, [])
   \<and> on_read ex_store ''s1'' (Val ''zz'') (Val ''main'') (Val ''bob'') =
       (ex_store, [Emit ''read'' (PRead (Some ''zz'') (Some ''bob'')) (ToRoom (Some ''main''))])
   \<and> on_read ex_store ''s1'' (Val ''zz'') Absent (Val ''bob'') = (ex_store, [])"
proof -
  have h: "first_by_id (get (Val ''zz'')) (messages ex_store) = None"
    by (simp add: get_def first_by_id_def ex_store_def ex_msg_def)
  have g: "get (Val ''zz'') = Some ''zz''" "get (Val ''main'') = Some ''main''"
    "get (Val ''bob'') = Some ''bob''" "get (Absent :: string field) = None"
    by (simp_all add: get_def)
  from absent_id_handlers [OF h, of "''s1''" "Val ''main''" 9 "Val ''new''" "Val ''+''" "Val ''bob''" "Val True"]
       absent_id_handlers [OF h, of "''s1''" Absent 9 "Val ''new''" "Val ''+''" "Val ''bob''" "Val True"]
       h
  show ?thesis by (simp add: g truthy_def)
qed

lemma mark_rows_falsy:
  "\<not> truthy name \<Longrightarrow> mark_rows name ms c = (ms, c)"
  by (induction ms arbitrary: c) (auto simp: truthy_def split: option.splits)

section \<open>Events with missing fields\<close>

text \<open>
  C5, as stated, fails: a \<open>msg\<close> event with none of room, name and msg is not dropped. The
  handler fills in its defaults, stores the message and emits \<open>msg\<close> and \<open>sent\<close>.
\<close>

theorem on_msg_defaults_counterexample:
  "on_msg (empty_server []) ''s1'' ''n1'' 7 Absent Absent Absent =
     Inr ((empty_server [])\<lparr> messages :=
              [\<lparr> msg_id = ''n1'', room = Some ''main'', author = Some ''Anon'',
                 mtext = Some '''', mtype = ''text'', mfile = None, ts = 7, edited = False,
                 deleted = False, reactions = [], pinned = False, read_by = [] \<rparr>] \<rparr>,
          [Emit ''msg''
             (PMsg \<lparr> d_id = ''n1'', d_room = Some ''main'', d_name = Some ''Anon'',
                     d_msg = Some '''', d_type = ''text'', d_file = None, d_ts = 7,
                     d_edited = False, d_deleted = False, d_reactions = [],
                     d_pinned = False, d_read_by = [] \<rparr>)
             (ToRoom (Some ''main'')),
           Emit ''sent'' (PSent ''n1'') ToSelf])"
  by (simp add: on_msg_def mk_msg_db_def get_default_def empty_server_def message_to_dict_def Let_def)

text \<open>
  C5, amended. A \<open>read\<close> event without a non-empty id, room or name, a \<open>react\<close> event
  without a non-empty emoji or name, an \<open>auth\<close> event without a non-empty token and a
  \<open>read_all\<close> event without a non-empty name are dropped, and so are \<open>delete_msg\<close>,
  \<open>pin_msg\<close> and \<open>react\<close> without an id: the server is unchanged and nothing is emitted.
  A \<open>msg\<close> event is never dropped for a missing field: a missing room, name or msg is
  replaced by \<open>main\<close>, \<open>Anon\<close> and the empty string, and with a fresh identifier the
  message is stored and \<open>msg\<close> and \<open>sent\<close> are emitted.
\<close>

theorem missing_field_events:
  "(\<not> truthy (get id_f) \<or> \<not> truthy (get room_f) \<or> \<not> truthy (get name_f)
      \<longrightarrow> on_read s sid id_f room_f name_f = (s, []))
   \<and> (\<not> truthy (get emoji_f) \<or> \<not> truthy (get name_f)
      \<longrightarrow> on_react s sid room_f id_f emoji_f name_f = (s, []))
   \<and> (\<not> truthy (get token_f) \<longrightarrow> on_auth s sid token_f = (s, []))
   \<and> (\<not> truthy (get name_f) \<longrightarrow> on_read_all s sid room_f name_f = (s, []))
   \<and> (get id_f = None
      \<longrightarrow> on_delete s sid room_f id_f = (s, []) \<and> on_pin s sid room_f id_f pin_f = (s, [])
        \<and> on_react s sid room_f id_f emoji_f name_f = (s, []))
   \<and> (new_id \<notin> msg_id ` set (messages s)
      \<longrightarrow> (\<exists>msg. on_msg s sid new_id now room_f name_f msg_f =
                  Inr (s\<lparr> messages := messages s @ [msg] \<rparr>,
                       [Emit ''msg'' (PMsg (message_to_dict msg))
                          (ToRoom (get_default room_f ''main'')),
                        Emit ''sent'' (PSent new_id) ToSelf])
              \<and> msg_id msg = new_id
              \<and> room msg = get_default room_f ''main''
              \<and> author msg = get_default name_f ''Anon''
              \<and> mtext msg = get_default msg_f ''''))
   \<and> get_default (Absent :: string field) ''main'' = Some ''main''
   \<and> get_default (Absent :: string field) ''Anon'' = Some ''Anon''
   \<and> get_default (Absent :: string field) '''' = Some ''''"
proof -
  have 1: "\<not> truthy (get id_f) \<or> \<not> truthy (get room_f) \<or> \<not> truthy (get name_f)
      \<longrightarrow> on_read s sid id_f room_f name_f = (s, [])"
    by (simp add: on_read_def Let_def)
  have 2: "\<not> truthy (get emoji_f) \<or> \<not> truthy (get name_f)
      \<longrightarrow> on_react s sid room_f id_f emoji_f name_f = (s, [])"
    by (auto simp: on_react_def Let_def truthy_def split: option.splits)
  have 3: "\<not> truthy (get token_f) \<longrightarrow> on_auth s sid token_f = (s, [])"
    by (auto simp: on_auth_def truthy_def split: option.splits)
  have 4: "\<not> truthy (get name_f) \<longrightarrow> on_read_all s sid room_f name_f = (s, [])"
    by (simp add: on_read_all_def Let_def mark_rows_falsy)
  have 5: "get id_f = None
      \<longrightarrow> on_delete s sid room_f id_f = (s, []) \<and> on_pin s sid room_f id_f pin_f = (s, [])
        \<and> on_react s sid room_f id_f emoji_f name_f = (s, [])"
    by (auto simp: on_delete_def on_pin_def on_react_def first_by_id_def Let_def
             split: option.splits)
  have 6: "new_id \<notin> msg_id ` set (messages s)
      \<longrightarrow> (\<exists>msg. on_msg s sid new_id now room_f name_f msg_f =
                  Inr (s\<lparr> messages := messages s @ [msg] \<rparr>,
                       [Emit ''msg'' (PMsg (message_to_dict msg))
                          (ToRoom (get_default room_f ''main'')),
                        Emit ''sent'' (PSent new_id) ToSelf])
              \<and> msg_id msg = new_id
              \<and> room msg = get_default room_f ''main''
              \<and> author msg = get_default name_f ''Anon''
              \<and> mtext msg = get_default msg_f '''')"
  proof
    assume fresh: "new_id \<notin> msg_id ` set (messages s)"
    let ?msg = "\<lparr> msg_id = new_id, room = get_default room_f ''main'',
                  author = get_default name_f ''Anon'', mtext = get_default msg_f '''',
                  mtype = ''text'', mfile = None, ts = now, edited = False,
                  deleted = False, reactions = [], pinned = False, read_by = [] \<rparr>"
    from fresh have "on_msg s sid new_id now room_f name_f msg_f =
                  Inr (s\<lparr> messages := messages s @ [?msg] \<rparr>,
                       [Emit ''msg'' (PMsg (message_to_dict ?msg))
                          (ToRoom (get_default room_f ''main'')),
                        Emit ''sent'' (PSent new_id) ToSelf])"
      by (simp add: on_msg_def mk_msg_db_def Let_def)
    then show "\<exists>msg. on_msg s sid new_id now room_f name_f msg_f =
                  Inr (s\<lparr> messages := messages s @ [msg] \<rparr>,
                       [Emit ''msg'' (PMsg (message_to_dict msg))
                          (ToRoom (get_default room_f ''main'')),
                        Emit ''sent'' (PSent new_id) ToSelf])
              \<and> msg_id msg = new_id
              \<and> room msg = get_default room_f ''main''
              \<and> author msg = get_default name_f ''Anon''
              \<and> mtext msg = get_default msg_f ''''"
      by (intro exI [of _ ?msg]) simp
  qed
  have 7: "get_default (Absent :: string field) ''main'' = Some ''main''
   \<and> get_default (Absent :: string field) ''Anon'' = Some ''Anon''
   \<and> get_default (Absent :: string field) '''' = Some ''''"
    by (simp add: get_default_def)
  from 1 2 3 4 5 6 7 show ?thesis by blast
qed

theorem missing_field_events_witness:
  "\<not> truthy (get (Absent :: string field))
   \<and> get (Absent :: string field) = None
   \<and> ''c'' \<notin> msg_id ` set (messages ex_store)
   \<and> on_read ex_store ''s1'' Absent Absent Absent = (ex_store, [])
   \<and> on_react ex_store ''s1'' Absent Absent Absent Absent = (ex_store, [])
   \<and> on_auth ex_store ''s1'' Absent = (ex_store, [])
   \<and> on_read_all ex_store ''s1'' Absent Absent = (ex_store, [])
   \<and> on_delete ex_store ''s1'' Absent Absent = (ex_store, [])
   \<and> on_pin ex_store ''s1'' Absent Absent (Val True) = (ex_store, [])
   \<and> (\<exists>msg. on_msg ex_store ''s1'' ''c'' 5 Absent Absent Absent =
                  Inr (ex_store\<lparr> messages := messages ex_store @ [msg] \<rparr>,
                       [Emit ''msg'' (PMsg (message_to_dict msg)) (ToRoom (Some ''main'')),
                        Emit ''sent'' (PSent ''c'') ToSelf])
              \<and> msg_id msg = ''c''
              \<and> room msg = Some ''main'' \<and> author msg = Some ''Anon''
              \<and> mtext msg = Some [])"
proof -
  have a: "\<not> truthy (get (Absent :: string field))" "get (Absent :: string field) = None"
    by (simp_all add: get_def truthy_def)
  have f: "''c'' \<notin> msg_id ` set (messages ex_store)"
    by (simp add: ex_store_def ex_msg_def)
  note t = missing_field_events [where id_f = Absent and room_f = Absent
      and name_f = Absent and s = ex_store and sid = "''s1''" and emoji_f = Absent
      and token_f = Absent and pin_f = "Val True" and new_id = "''c''" and now = 5
      and msg_f = Absent]
  have d: "get_default (Absent :: string field) ''main'' = Some ''main''"
    "get_default (Absent :: string field) ''Anon'' = Some ''Anon''"
    "get_default (Absent :: string field) [] = Some []"
    using t by simp_all
  from t a f have
    "on_read ex_store ''s1'' Absent Absent Absent = (ex_store, [])"
    "on_react ex_store ''s1'' Absent Absent Absent Absent = (ex_store, [])"
    "on_auth ex_store ''s1'' Absent = (ex_store, [])"
    "on_read_all ex_store ''s1'' Absent Absent = (ex_store, [])"
    "on_delete ex_store ''s1'' Absent Absent = (ex_store, [])"
    "on_pin ex_store ''s1'' Absent Absent (Val True) = (ex_store, [])"
    "\<exists>msg. on_msg ex_store ''s1'' ''c'' 5 Absent Absent Absent =
                  Inr (ex_store\<lparr> messages := messages ex_store @ [msg] \<rparr>,
                       [Emit ''msg'' (PMsg (message_to_dict msg))
                          (ToRoom (get_default Absent ''main'')),
                        Emit ''sent'' (PSent ''c'') ToSelf])
              \<and> msg_id msg = ''c''
              \<and> room msg = get_default Absent ''main''
              \<and> author msg = get_default Absent ''Anon''
              \<and> mtext msg = get_default Absent []"
    by blast+
  then show ?thesis using a f unfolding d by blast
qed

lemma set_update_subset: "set (AList.update k v al) \<subseteq> insert (k, v) (set al)"
  by (induction al) auto

lemma set_delete_subset: "set (AList.delete k al) \<subseteq> set al"
  by (auto simp: AList.delete_eq)

section \<open>The presence registry\<close>

lemma on_auth_presence_ok:
  assumes "presence_ok s"
  shows "presence_ok (fst (on_auth s sid token_f))"
proof -
  have "p \<in> set (AList.update user (insert sid c) (online_users s)) \<Longrightarrow> snd p \<noteq> {}"
    for p user c
    using set_update_subset [of user "insert sid c" "online_users s"] assms
    by (auto simp: presence_ok_def)
  then show ?thesis
    using assms
    by (auto simp: on_auth_def Let_def presence_ok_def split: option.splits)
qed

lemma on_disconnect_presence_ok:
  assumes "presence_ok s"
  shows "presence_ok (fst (on_disconnect s sid))"
proof -
  have u: "p \<in> set (AList.update user c (online_users s)) \<Longrightarrow> c \<noteq> {} \<Longrightarrow> snd p \<noteq> {}"
    for p user c
    using set_update_subset [of user c "online_users s"] assms
    by (auto simp: presence_ok_def)
  have d: "p \<in> set (AList.delete user (online_users s)) \<Longrightarrow> snd p \<noteq> {}" for p user
    using set_delete_subset [of user "online_users s"] assms
    by (auto simp: presence_ok_def)
  show ?thesis
    unfolding presence_ok_def
  proof
    fix p assume "p \<in> set (online_users (fst (on_disconnect s sid)))"
    then show "snd p \<noteq> {}"
      using assms u d
      by (auto simp: on_disconnect_def Let_def presence_ok_def
               split: option.splits if_splits)
  qed
qed

lemma on_msg_online_users:
  "on_msg s sid new_id now room_f name_f msg_f = Inr r \<Longrightarrow>
   online_users (fst r) = online_users s"
  by (auto simp: on_msg_def mk_msg_db_def Let_def split: if_splits)

lemma on_read_online_users:
  "online_users (fst (on_read s sid id_f room_f name_f)) = online_users s"
  by (simp add: on_read_def Let_def split: option.splits)

lemma on_read_all_online_users:
  "online_users (fst (on_read_all s sid room_f name_f)) = online_users s"
  by (simp add: on_read_all_def Let_def split: prod.splits)

lemma on_delete_online_users:
  "online_users (fst (on_delete s sid room_f id_f)) = online_users s"
  by (simp add: on_delete_def Let_def split: option.splits)

lemma on_edit_online_users:
  "online_users (fst (on_edit s sid now room_f id_f msg_f)) = online_users s"
  by (simp add: on_edit_def Let_def split: option.splits)

lemma on_react_online_users:
  "online_users (fst (on_react s sid room_f id_f emoji_f name_f)) = online_users s"
  by (simp add: on_react_def Let_def split: option.splits)

lemma on_pin_online_users:
  "online_users (fst (on_pin s sid room_f id_f pin_f)) = online_users s"
  by (simp add: on_pin_def Let_def split: option.splits)

lemma handle_presence_ok:
  assumes "presence_ok s"
  shows "presence_ok (fst (handle s sid ev))"
proof (cases ev)
  case (Auth token_f)
  then show ?thesis using assms by (simp add: on_auth_presence_ok)
next
  case Disconnect
  then show ?thesis using assms by (simp add: on_disconnect_presence_ok)
next
  case (Msg new_id now room_f name_f msg_f)
  then show ?thesis using assms on_msg_online_users [of s sid new_id now room_f name_f msg_f]
    by (auto simp: presence_ok_def split: sum.splits)
next
  case Connect
  then show ?thesis using assms by (simp add: on_connect_def)
next
  case (Join room_f)
  then show ?thesis using assms by (simp add: on_join_def Let_def)
next
  case (Typing room_f name_f)
  then show ?thesis using assms by (simp add: on_typing_def Let_def)
next
  case (Delivered id_f room_f)
  then show ?thesis using assms by (simp add: on_delivered_def)
next
  case (Read id_f room_f name_f)
  then show ?thesis using assms by (simp add: presence_ok_def on_read_online_users)
next
  case (ReadAll room_f name_f)
  then show ?thesis using assms by (simp add: presence_ok_def on_read_all_online_users)
next
  case (DeleteMsg room_f id_f)
  then show ?thesis using assms by (simp add: presence_ok_def on_delete_online_users)
next
  case (EditMsg now room_f id_f msg_f)
  then show ?thesis using assms by (simp add: presence_ok_def on_edit_online_users)
next
  case (React room_f id_f emoji_f name_f)
  then show ?thesis using assms by (simp add: presence_ok_def on_react_online_users)
next
  case (PinMsg room_f id_f pin_f)
  then show ?thesis using assms by (simp add: presence_ok_def on_pin_online_users)
qed

lemma run_presence_ok: "presence_ok s \<Longrightarrow> presence_ok (run s evs)"
proof (induction evs arbitrary: s)
  case Nil
  then show ?case by simp
next
  case (Cons e evs)
  obtain sid ev where e: "e = (sid, ev)" by (cases e)
  from Cons.prems have "presence_ok (fst (handle s sid ev))" by (rule handle_presence_ok)
  then show ?case using Cons.IH e by simp
qed

lemma on_disconnect_online_users:
  "online_users (fst (on_disconnect s sid)) =
     (case map_of (sid_to_user s) sid of
        None \<Rightarrow> online_users s
      | Some user \<Rightarrow>
          if user = [] then online_users s
          else (case map_of (online_users s) user of
                  None \<Rightarrow> online_users s
                | Some c \<Rightarrow>
                    if c = {} then online_users s
                    else if c - {sid} = {} then AList.delete user (online_users s)
                    else AList.update user (c - {sid}) (online_users s)))"
  by (simp add: on_disconnect_def Let_def split: option.splits)

lemma dom_delete: "fst ` set (AList.delete k al) = fst ` set al - {k}"
  by (induction al) auto

lemma on_disconnect_key_removed:
  "(u \<in> fst ` set (online_users s) \<and> u \<notin> fst ` set (online_users (fst (on_disconnect s sid))))
   \<longleftrightarrow> (map_of (sid_to_user s) sid = Some u \<and> u \<noteq> [] \<and> conns_of s u = {sid})"
  (is "?L \<longleftrightarrow> ?R")
proof -
  let ?K = "fst ` set (online_users s)"
  let ?K' = "fst ` set (online_users (fst (on_disconnect s sid)))"
  have same: "online_users (fst (on_disconnect s sid)) = online_users s \<Longrightarrow> \<not> ?L"
    by simp
  show ?thesis
  proof (cases "map_of (sid_to_user s) sid")
    case None
    then have "online_users (fst (on_disconnect s sid)) = online_users s"
      by (simp add: on_disconnect_online_users)
    with same None show ?thesis by simp
  next
    case su: (Some user)
    show ?thesis
    proof (cases "user = []")
      case True
      with su have "online_users (fst (on_disconnect s sid)) = online_users s"
        by (simp add: on_disconnect_online_users)
      with same su True show ?thesis by auto
    next
      case ne: False
      show ?thesis
      proof (cases "map_of (online_users s) user")
        case None
        with su have "online_users (fst (on_disconnect s sid)) = online_users s"
          by (simp add: on_disconnect_online_users)
        moreover from None have "conns_of s user = {}" by (simp add: conns_of_def)
        ultimately show ?thesis using same su by auto
      next
        case c: (Some c)
        then have cu: "conns_of s user = c" by (simp add: conns_of_def)
        from map_of_SomeD [OF c] have inK: "user \<in> ?K" by (simp add: image_iff) force
        consider "c = {}" | "c = {sid}" | "c \<noteq> {}" "c - {sid} \<noteq> {}"
          by blast
        then show ?thesis
        proof cases
          case 1
          with su c have "online_users (fst (on_disconnect s sid)) = online_users s"
            by (simp add: on_disconnect_online_users)
          with same su cu 1 show ?thesis by auto
        next
          case 2
          with su c ne have "online_users (fst (on_disconnect s sid))
                       = AList.delete user (online_users s)"
            by (simp add: on_disconnect_online_users)
          then have "?K' = ?K - {user}" by (simp add: dom_delete)
          with inK su ne cu 2 show ?thesis by auto
        next
          case 3
          with su c ne have "online_users (fst (on_disconnect s sid))
                       = AList.update user (c - {sid}) (online_users s)"
            by (simp add: on_disconnect_online_users)
          then have "?K' = {user} \<union> ?K" by (simp add: dom_update)
          moreover from 3 have "c \<noteq> {sid}" by blast
          ultimately show ?thesis using su cu by auto
        qed
      qed
    qed
  qed
qed

text \<open>
  C9. In every state reached from an empty \<open>online_users\<close> dictionary by any sequence of
  events, every username that is a key of \<open>online_users\<close> has a non-empty set of connection
  ids; and \<open>on_disconnect\<close> removes a username key exactly when the connection that drops is
  bound to that (non-empty) username and is the only element of the user's set, that is, when
  the handler takes out the user's last connection id.
\<close>

theorem presence_registry_invariant:
  assumes "online_users s0 = []"
  shows "presence_ok (run s0 evs)
       \<and> (\<forall>u c. map_of (online_users (run s0 evs)) u = Some c \<longrightarrow> c \<noteq> {})
       \<and> (\<forall>sid u.
            (u \<in> fst ` set (online_users (run s0 evs))
               \<and> u \<notin> fst ` set (online_users (fst (on_disconnect (run s0 evs) sid))))
            \<longleftrightarrow> (map_of (sid_to_user (run s0 evs)) sid = Some u \<and> u \<noteq> []
                   \<and> conns_of (run s0 evs) u = {sid}))"
proof -
  from assms have "presence_ok s0" by (simp add: presence_ok_def)
  then have p: "presence_ok (run s0 evs)" by (rule run_presence_ok)
  have q: "c \<noteq> {}" if "map_of (online_users (run s0 evs)) u = Some c" for u c
    using p map_of_SomeD [OF that] by (auto simp: presence_ok_def)
  show ?thesis
    by (intro conjI allI impI) (rule p, erule q, rule on_disconnect_key_removed)
qed





theorem presence_registry_invariant_witness:
  "online_users (empty_server ex_devices) = []
   \<and> online_users (run (empty_server ex_devices)
        [(''s1'', Auth (Val ''t1'')), (''s2'', Auth (Val ''t1'')), (''s1'', Disconnect)])
       = [(''alice'', {''s2''})]
   \<and> presence_ok (run (empty_server ex_devices)
        [(''s1'', Auth (Val ''t1'')), (''s2'', Auth (Val ''t1'')), (''s1'', Disconnect)])
   \<and> ''alice'' \<notin> fst ` set (online_users (fst (on_disconnect (run (empty_server ex_devices)
        [(''s1'', Auth (Val ''t1'')), (''s2'', Auth (Val ''t1'')), (''s1'', Disconnect)])
        ''s2'')))"
proof -
  let ?s = "run (empty_server ex_devices)
              [(''s1'', Auth (Val ''t1'')), (''s2'', Auth (Val ''t1'')), (''s1'', Disconnect)]"
  have h: "online_users (empty_server ex_devices) = []" by (simp add: empty_server_def)
  have o: "online_users ?s = [(''alice'', {''s2''})]"
    by (simp add: empty_server_def ex_devices_def on_auth_def on_disconnect_def get_def
          Let_def insert_Diff_if)
  have m: "map_of (sid_to_user ?s) ''s2'' = Some ''alice''"
    by (simp add: empty_server_def ex_devices_def on_auth_def on_disconnect_def get_def
          Let_def insert_Diff_if)
  have c: "conns_of ?s ''alice'' = {''s2''}"
    by (simp only: conns_of_def o) simp
  have k: "''alice'' \<in> fst ` set (online_users ?s)"
    by (simp only: o) simp
  note t = presence_registry_invariant [OF h,
      of "[(''s1'', Auth (Val ''t1'')), (''s2'', Auth (Val ''t1'')), (''s1'', Disconnect)]"]
  from t have p: "presence_ok ?s" by (rule conjunct1)
  note q = t [THEN conjunct2, THEN conjunct2, THEN spec [where x = "''s2''"],
      THEN spec [where x = "''alice''"]]
  from q m c k have r: "''alice'' \<notin> fst ` set (online_users (fst (on_disconnect ?s ''s2'')))"
    by simp
  from h o p r show ?thesis by (intro conjI)
qed

section \<open>History on join\<close>









section \<open>Presence on disconnect\<close>

text \<open>
  C6. The claim asks for the offline event exactly when a user's set of active connections
  becomes empty. The code misses the case of a connection that authenticates a second time,
  for another user: \<open>on_auth\<close> rebinds the connection but leaves its id in the first user's
  set, and \<open>on_disconnect\<close> takes it out of the second user's set only. Connection \<open>s1\<close>
  authenticates as alice, then as bob, then drops: the drop reports bob offline and lists
  alice as online, and alice, who has no connection left, stays in \<open>online_users\<close> with the
  closed connection and is never reported offline.
\<close>

theorem reauth_never_offline:
  "online_users (run (empty_server ex_devices)
          [(''s1'', Auth (Val ''t1'')), (''s1'', Auth (Val ''t2''))])
     = [(''alice'', {''s1''}), (''bob'', {''s1''})]
   \<and> sid_to_user (run (empty_server ex_devices)
          [(''s1'', Auth (Val ''t1'')), (''s1'', Auth (Val ''t2''))])
     = [(''s1'', ''bob'')]
   \<and> snd (handle (run (empty_server ex_devices)
          [(''s1'', Auth (Val ''t1'')), (''s1'', Auth (Val ''t2''))]) ''s1'' Disconnect)
     = [Emit ''presence'' (PPresence ''bob'' False) Everyone,
        Emit ''online_update'' (PNames [''alice'']) Everyone]
   \<and> online_users (run (empty_server ex_devices)
          [(''s1'', Auth (Val ''t1'')), (''s1'', Auth (Val ''t2'')), (''s1'', Disconnect)])
     = [(''alice'', {''s1''})]
   \<and> sid_to_user (run (empty_server ex_devices)
          [(''s1'', Auth (Val ''t1'')), (''s1'', Auth (Val ''t2'')), (''s1'', Disconnect)])
     = []"
  by (simp add: empty_server_def ex_devices_def on_auth_def on_disconnect_def get_def
        online_update_def Let_def)

section \<open>Reaction toggle\<close>

text \<open>
  C7. The claim asks that a \<open>react\<close> event adds the name when absent and removes it when
  present, that two toggles cancel and that toggles by different names accumulate. The code
  stores a reaction only on a message whose reaction map is empty; on a non-empty map it
  changes the loaded dictionary in place and assigns the same object back, so the commit
  writes nothing and \<open>msg_update\<close> shows the row unchanged. Message \<open>a\<close> has bob under \<open>+\<close>:
  carol's reaction is lost. Message \<open>b\<close> has no reactions: carol's first reaction is stored,
  then bob's is lost, and a second toggle by carol does not remove her.
\<close>

theorem on_react_later_toggles_lost:
  "map reactions (messages ex_store) = [[(''+'', [''bob''])], []]
   \<and> map reactions (messages (fst (on_react ex_store ''s1'' (Val ''main'') (Val ''a'')
        (Val ''+'') (Val ''carol'')))) = [[(''+'', [''bob''])], []]
   \<and> map (\<lambda>d. (d_id d, d_reactions d))
        (emitted_dicts (snd (on_react ex_store ''s1'' (Val ''main'') (Val ''a'')
           (Val ''+'') (Val ''carol'')))) = [(''a'', [(''+'', [''bob''])])]
   \<and> map reactions (messages (run ex_store
        [(''s1'', React (Val ''main'') (Val ''b'') (Val ''+'') (Val ''carol''))]))
       = [[(''+'', [''bob''])], [(''+'', [''carol''])]]
   \<and> map reactions (messages (run ex_store
        [(''s1'', React (Val ''main'') (Val ''b'') (Val ''+'') (Val ''carol'')),
         (''s2'', React (Val ''main'') (Val ''b'') (Val ''+'') (Val ''bob''))]))
       = [[(''+'', [''bob''])], [(''+'', [''carol''])]]
   \<and> map reactions (messages (run ex_store
        [(''s1'', React (Val ''main'') (Val ''b'') (Val ''+'') (Val ''carol'')),
         (''s1'', React (Val ''main'') (Val ''b'') (Val ''+'') (Val ''carol''))]))
       = [[(''+'', [''bob''])], [(''+'', [''carol''])]]"
  by (simp add: ex_store_def ex_msg_def on_react_def get_def first_by_id_def rx_get_def
        toggle_def json_written_def emitted_dicts_def message_to_dict_def Let_def)

section \<open>Emoji keys of a reaction map\<close>

text \<open>
  C10. The claim asks that toggling off the last name under an emoji leaves the emoji mapped
  to the empty list, and that this empty entry is in every later payload. In the code the
  toggle that would empty the list changes the loaded dictionary in place and is never
  stored (the defect of C7): bob is the only name under \<open>+\<close> on message \<open>a\<close>, he reacts with
  \<open>+\<close> again, and the table, the \<open>msg_update\<close> payload and the next history still show bob
  under \<open>+\<close>.
\<close>

theorem on_react_toggle_off_not_stored:
  "rx_get (reactions (hd (messages ex_store))) ''+'' = [''bob'']
   \<and> map reactions (messages (fst (on_react ex_store ''s1'' (Val ''main'') (Val ''a'')
        (Val ''+'') (Val ''bob'')))) = [[(''+'', [''bob''])], []]
   \<and> map (\<lambda>d. (d_id d, d_reactions d))
        (emitted_dicts (snd (on_react ex_store ''s1'' (Val ''main'') (Val ''a'')
           (Val ''+'') (Val ''bob'')))) = [(''a'', [(''+'', [''bob''])])]
   \<and> map (\<lambda>d. (d_id d, d_reactions d))
        (emitted_dicts (snd (on_join
           (fst (on_react ex_store ''s1'' (Val ''main'') (Val ''a'') (Val ''+'') (Val ''bob'')))
           ''s2'' (Val ''main'')))) = [(''a'', [(''+'', [''bob''])]), (''b'', [])]"
  by (simp add: ex_store_def ex_msg_def on_react_def on_join_def get_def get_default_def
        first_by_id_def rx_get_def toggle_def json_written_def rows_of_room_def
        emitted_dicts_def message_to_dict_def Let_def)

section \<open>Marking a room as read\<close>

text \<open>
  C3. The claim asks that \<open>read_all\<close> adds the name to the read set of every message of the
  room that lacks it. \<open>on_read_all\<close> never commits (\<open>on_read\<close> does), so no read set in the
  table changes. Message \<open>a\<close> is read by bob, message \<open>b\<close> by nobody, and carol sends
  \<open>read_all\<close>: the table is as before, the update of \<open>b\<close> is left in an open transaction,
  and the \<open>read_update\<close> that goes out lists both messages of the room, \<open>a\<close> without carol
  (its list was changed in place and read again from the table) and \<open>b\<close> with her.
\<close>

theorem on_read_all_not_stored:
  "map read_by (messages ex_store) = [[''bob''], []]
   \<and> map read_by (messages (fst (on_read_all ex_store ''s1'' (Val ''main'') (Val ''carol''))))
       = [[''bob''], []]
   \<and> hd (snd (on_read_all ex_store ''s1'' (Val ''main'') (Val ''carol'')))
       = OpenTransaction [(''b'', [''carol''])]
   \<and> map (\<lambda>d. (d_id d, d_read_by d))
        (emitted_dicts (snd (on_read_all ex_store ''s1'' (Val ''main'') (Val ''carol''))))
       = [(''a'', [''bob'']), (''b'', [''carol''])]"
  by (simp add: ex_store_def ex_msg_def on_read_all_def second_query_def flushed_def
        json_written_def get_def rows_of_room_def emitted_dicts_def message_to_dict_def
        Let_def)

end
